theory Spec2Isabelle
  imports Complex_Main
begin

section \<open>Python values, exceptions and the mutable world\<close>

text \<open>
  The module \<^verbatim>\<open>rag_utils.py\<close> has five functions. Two of them work on a caller-owned
  list of score records (dictionaries that are mutated in place), three of them talk to
  external collaborators (a retriever, a prompt template, a language model) and print
  diagnostics. The embedding makes each of these effects explicit.

  Conventions of the embedding:
  \<^item> a Python \<^verbatim>\<open>str\<close> is a \<^typ>\<open>string\<close>, one \<^typ>\<open>char\<close> per code point, so texts are
    restricted to code points below 256 (in that range the pattern class \<^verbatim>\<open>\d\<close> is
    exactly \<^verbatim>\<open>0\<close> to \<^verbatim>\<open>9\<close>);
  \<^item> a Python \<^verbatim>\<open>float\<close> is a \<^typ>\<open>real\<close>: rounding is not modelled;
  \<^item> a Python \<^verbatim>\<open>int\<close> is an \<^typ>\<open>int\<close>;
  \<^item> an exception is a value: every operation that can raise returns
    \<open>pyerror + 'a\<close>, with \<open>Inl\<close> for the raised exception.
\<close>

datatype exc_class =
    TypeError | ValueError | KeyError | IndexError | ZeroDivisionError | RuntimeError
  | KeyboardInterrupt | SystemExit | GeneratorExit

text \<open>
  An exception object: its class and the text \<^verbatim>\<open>str(e)\<close> gives for it.
\<close>

datatype pyerror = Raised exc_class string

fun exc_of :: "pyerror \<Rightarrow> exc_class" where
  "exc_of (Raised c msg) = c"

fun str_of :: "pyerror \<Rightarrow> string" where
  "str_of (Raised c msg) = msg"

text \<open>
  Python's exception hierarchy: \<^verbatim>\<open>KeyboardInterrupt\<close>, \<^verbatim>\<open>SystemExit\<close> and
  \<^verbatim>\<open>GeneratorExit\<close> derive from \<^verbatim>\<open>BaseException\<close> only; a handler
  \<^verbatim>\<open>except Exception\<close> catches the others, a bare \<^verbatim>\<open>except:\<close> catches all.
\<close>

fun is_Exception :: "exc_class \<Rightarrow> bool" where
  "is_Exception KeyboardInterrupt = False"
| "is_Exception SystemExit = False"
| "is_Exception GeneratorExit = False"
| "is_Exception c = True"

definition bind_e :: "pyerror + 'a \<Rightarrow> ('a \<Rightarrow> pyerror + 'b) \<Rightarrow> pyerror + 'b" where
  "bind_e m f = (case m of Inl e \<Rightarrow> Inl e | Inr x \<Rightarrow> f x)"

text \<open>
  The value of a field of a score record: \<^verbatim>\<open>None\<close> or a number.
\<close>

datatype pyval = PyNone | PyNum real

type_synonym pydict = "string \<rightharpoonup> pyval"

type_synonym ref = nat

text \<open>
  What the functions print and whom they call, in order.
\<close>

datatype event =
    Retrieve string
  | Format string string
  | Invoke string
  | Print string

text \<open>
  The world: list objects and dictionary objects by address, and the events so far.
  A score list is the address of a list object whose elements are addresses of
  dictionaries, so two positions of a list may hold the same record.
\<close>

record world =
  lists :: "ref \<Rightarrow> ref list"
  dicts :: "ref \<Rightarrow> pydict"
  events :: "event list"

section \<open>Metrics aggregation\<close>

record metrics =
  vanilla_faith_avg :: real
  vanilla_relev_avg :: real
  rag_faith_avg :: real
  rag_relev_avg :: real
  count :: int

definition score_keys :: "string list" where
  "score_keys = [''vanilla_faith'', ''vanilla_relev'', ''rag_faith'', ''rag_relev'']"

text \<open>
  \<^verbatim>\<open>all(k in s and s[k] is not None for k in [...])\<close>
\<close>

definition all_present :: "pydict \<Rightarrow> bool" where
  "all_present s = list_all (\<lambda>k. s k \<noteq> None \<and> s k \<noteq> Some PyNone) score_keys"

text \<open>
  \<^verbatim>\<open>s[k]\<close> raises \<^verbatim>\<open>KeyError\<close> on a missing key.
\<close>

definition getitem :: "pydict \<Rightarrow> string \<Rightarrow> pyerror + pyval" where
  "getitem s k = (case s k of None \<Rightarrow> Inl (Raised KeyError k) | Some v \<Rightarrow> Inr v)"

text \<open>
  \<^verbatim>\<open>a + v\<close> for a float \<open>a\<close>: adding \<^verbatim>\<open>None\<close> raises \<^verbatim>\<open>TypeError\<close>.
\<close>

definition add_float :: "real \<Rightarrow> pyval \<Rightarrow> pyerror + real" where
  "add_float a v =
     (case v of
        PyNone \<Rightarrow> Inl (Raised TypeError ''unsupported operand type(s) for +'')
      | PyNum x \<Rightarrow> Inr (a + x))"

text \<open>
  \<^verbatim>\<open>a / n\<close> for a float \<open>a\<close> and an int \<open>n\<close>.
\<close>

definition truediv :: "real \<Rightarrow> int \<Rightarrow> pyerror + real" where
  "truediv a n =
     (if n = 0 then Inl (Raised ZeroDivisionError ''float division by zero'')
      else Inr (a / of_int n))"

definition metrics0 :: metrics where
  "metrics0 = \<lparr>vanilla_faith_avg = 0, vanilla_relev_avg = 0,
               rag_faith_avg = 0, rag_relev_avg = 0, count = 0\<rparr>"

text \<open>
  The four \<^verbatim>\<open>metrics[...] += s[...]\<close> statements of the loop body, in order.
\<close>

definition add_scores :: "pydict \<Rightarrow> metrics \<Rightarrow> pyerror + metrics" where
  "add_scores s m =
     bind_e (bind_e (getitem s ''vanilla_faith'') (add_float (vanilla_faith_avg m))) (\<lambda>a.
     bind_e (bind_e (getitem s ''vanilla_relev'') (add_float (vanilla_relev_avg m))) (\<lambda>b.
     bind_e (bind_e (getitem s ''rag_faith'') (add_float (rag_faith_avg m))) (\<lambda>c.
     bind_e (bind_e (getitem s ''rag_relev'') (add_float (rag_relev_avg m))) (\<lambda>d.
     Inr (m\<lparr>vanilla_faith_avg := a, vanilla_relev_avg := b,
             rag_faith_avg := c, rag_relev_avg := d\<rparr>)))))"

text \<open>
  The \<^verbatim>\<open>for s in scores_list\<close> loop, with the dictionary \<open>m\<close> and the counter
  \<open>n\<close> (\<^verbatim>\<open>valid_entries\<close>) as accumulators.
\<close>

fun accumulate :: "pydict list \<Rightarrow> metrics \<Rightarrow> int \<Rightarrow> pyerror + (metrics \<times> int)" where
  "accumulate [] m n = Inr (m, n)"
| "accumulate (s # ss) m n =
     (if all_present s
      then bind_e (add_scores s m) (\<lambda>m'. accumulate ss m' (n + 1))
      else accumulate ss m n)"

text \<open>
  The part after the loop: the guarded divisions and the store of the count.
\<close>

definition finish :: "metrics \<Rightarrow> int \<Rightarrow> pyerror + metrics" where
  "finish m n =
     bind_e
       (if n > 0 then
          bind_e (truediv (vanilla_faith_avg m) n) (\<lambda>a.
          bind_e (truediv (vanilla_relev_avg m) n) (\<lambda>b.
          bind_e (truediv (rag_faith_avg m) n) (\<lambda>c.
          bind_e (truediv (rag_relev_avg m) n) (\<lambda>d.
          Inr (m\<lparr>vanilla_faith_avg := a, vanilla_relev_avg := b,
                  rag_faith_avg := c, rag_relev_avg := d\<rparr>)))))
        else Inr m)
       (\<lambda>m'. Inr (m'\<lparr>count := n\<rparr>))"

text \<open>
  \<^verbatim>\<open>compute_metrics(scores_list)\<close>: the argument is the address of the list object.
  The records are read through the store; the result is a new value, returned together
  with the world the call leaves behind.
\<close>

definition compute_metrics :: "ref \<Rightarrow> world \<Rightarrow> (pyerror + metrics) \<times> world" where
  "compute_metrics scores_list w =
     (bind_e (accumulate (map (dicts w) (lists w scores_list)) metrics0 0)
        (\<lambda>(m, n). finish m n), w)"

section \<open>Score update\<close>

type_synonym 'a action = "world \<Rightarrow> (pyerror + 'a) \<times> world"

text \<open>
  Sequencing of statements: an exception stops the rest and keeps the world as it is at
  the raise.
\<close>

definition bind_s :: "'a action \<Rightarrow> ('a \<Rightarrow> 'b action) \<Rightarrow> 'b action" where
  "bind_s m f w = (case m w of (Inl e, w') \<Rightarrow> (Inl e, w') | (Inr x, w') \<Rightarrow> f x w')"

definition return_s :: "'a \<Rightarrow> 'a action" where
  "return_s x w = (Inr x, w)"

definition lift_e :: "pyerror + 'a \<Rightarrow> 'a action" where
  "lift_e r w = (r, w)"

definition print_line :: "string \<Rightarrow> unit action" where
  "print_line s w = (Inr (), w\<lparr>events := events w @ [Print s]\<rparr>)"

text \<open>
  \<^verbatim>\<open>str(n)\<close> for an int, as the f-string of the diagnostic formats it.
\<close>

definition digit_char :: "nat \<Rightarrow> char" where
  "digit_char d = char_of (48 + d)"

fun str_nat :: "nat \<Rightarrow> string" where
  "str_nat n = (if n < 10 then [digit_char n] else str_nat (n div 10) @ [digit_char (n mod 10)])"

declare str_nat.simps [simp del]

definition str_int :: "int \<Rightarrow> string" where
  "str_int i = (if i < 0 then CHR ''-'' # str_nat (nat (- i)) else str_nat (nat i))"

text \<open>
  \<^verbatim>\<open>xs[i]\<close> on a list: a negative index counts from the end, an index out of range
  raises \<^verbatim>\<open>IndexError\<close>.
\<close>

definition list_getitem :: "'a list \<Rightarrow> int \<Rightarrow> pyerror + 'a" where
  "list_getitem xs i =
     (if 0 \<le> i \<and> i < int (length xs) then Inr (xs ! nat i)
      else if i < 0 \<and> - int (length xs) \<le> i then Inr (xs ! nat (int (length xs) + i))
      else Inl (Raised IndexError ''list index out of range''))"

text \<open>
  \<^verbatim>\<open>scores_list[idx][k] = v\<close>: the dictionary object the list element refers to is
  updated in place.
\<close>

definition set_field :: "ref \<Rightarrow> int \<Rightarrow> string \<Rightarrow> pyval \<Rightarrow> unit action" where
  "set_field scores_list idx k v w =
     (case list_getitem (lists w scores_list) idx of
        Inl e \<Rightarrow> (Inl e, w)
      | Inr r \<Rightarrow> (Inr (), w\<lparr>dicts := (dicts w)(r := (dicts w r)(k \<mapsto> v))\<rparr>))"

definition score_question ::
    "ref \<Rightarrow> int \<Rightarrow> pyval \<Rightarrow> pyval \<Rightarrow> pyval \<Rightarrow> pyval \<Rightarrow> unit action" where
  "score_question scores_list index vf vr rf rr w =
     (let idx = index - 1 in
      if 0 \<le> idx \<and> idx < int (length (lists w scores_list)) then
        bind_s (set_field scores_list idx ''vanilla_faith'' vf) (\<lambda>_.
        bind_s (set_field scores_list idx ''vanilla_relev'' vr) (\<lambda>_.
        bind_s (set_field scores_list idx ''rag_faith'' rf) (\<lambda>_.
        set_field scores_list idx ''rag_relev'' rr))) w
      else
        print_line (''Error: Index '' @ str_int index @ '' out of range.'') w)"

section \<open>Score parsing\<close>

text \<open>
  What a model invocation returns: a \<^verbatim>\<open>str\<close>, or some other object (a chat model
  returns a message object), on which \<^verbatim>\<open>re.search\<close> raises \<^verbatim>\<open>TypeError\<close>.
\<close>

datatype response = Text string | NotText

definition is_digit :: "char \<Rightarrow> bool" where
  "is_digit c = (c \<in> set ''0123456789'')"

definition digit_value :: "char \<Rightarrow> nat" where
  "digit_value c = of_char c - 48"

text \<open>
  The pattern \<^verbatim>\<open>\d+(\.\d+)?\<close> anchored at the start of \<open>s\<close>: \<^verbatim>\<open>\d+\<close> is greedy and
  takes the whole run of digits; the optional group is tried next and takes a dot and the
  run of digits after it when that run is not empty; otherwise the group is skipped. As
  the group is optional, the match never has to give digits back.
\<close>

definition match_number :: "string \<Rightarrow> string option" where
  "match_number s =
     (let ip = takeWhile is_digit s; rest = dropWhile is_digit s in
      if ip = [] then None
      else (case rest of
              [] \<Rightarrow> Some ip
            | c # rest' \<Rightarrow>
                if c = CHR ''.'' \<and> takeWhile is_digit rest' \<noteq> []
                then Some (ip @ c # takeWhile is_digit rest')
                else Some ip))"

text \<open>
  \<^verbatim>\<open>re.search\<close>: the match at the leftmost position that has one.
\<close>

fun re_search :: "string \<Rightarrow> string option" where
  "re_search [] = None"
| "re_search (c # cs) =
     (case match_number (c # cs) of Some m \<Rightarrow> Some m | None \<Rightarrow> re_search cs)"

definition decimal :: "string \<Rightarrow> nat" where
  "decimal ds = foldl (\<lambda>a c. 10 * a + digit_value c) 0 ds"

text \<open>
  \<^verbatim>\<open>float(text)\<close> on unsigned decimal literals: digits, optionally a dot and more
  digits, with a digit on at least one side. Python's \<^verbatim>\<open>float\<close> accepts further forms
  (a sign, an exponent, surrounding blanks, underscores, \<^verbatim>\<open>inf\<close>, \<^verbatim>\<open>nan\<close>); they are
  reported as \<^verbatim>\<open>ValueError\<close> here, and no match of the pattern has such a form.
\<close>

definition py_float :: "string \<Rightarrow> pyerror + real" where
  "py_float t =
     (let ip = takeWhile is_digit t; rest = dropWhile is_digit t in
      if rest = [] then
        (if ip = [] then Inl (Raised ValueError ''could not convert string to float'')
         else Inr (real (decimal ip)))
      else if hd rest = CHR ''.'' \<and> list_all is_digit (tl rest) \<and> (ip \<noteq> [] \<or> tl rest \<noteq> [])
      then Inr (real (decimal ip) + real (decimal (tl rest)) / 10 ^ length (tl rest))
      else Inl (Raised ValueError ''could not convert string to float''))"

text \<open>
  The body of the \<^verbatim>\<open>try\<close> block of \<^verbatim>\<open>parse_score\<close>.
\<close>

definition parse_score_try :: "response \<Rightarrow> pyerror + real" where
  "parse_score_try response_text =
     (case response_text of
        NotText \<Rightarrow> Inl (Raised TypeError ''expected string or bytes-like object'')
      | Text s \<Rightarrow>
          (case re_search s of
             Some m \<Rightarrow> bind_e (py_float m) (\<lambda>val. Inr (max 0 (min 10 val) / 10))
           | None \<Rightarrow> Inr 0))"

text \<open>
  The bare \<^verbatim>\<open>except:\<close> catches every exception and returns \<^verbatim>\<open>0.0\<close>.
\<close>

definition parse_score :: "response \<Rightarrow> pyerror + real" where
  "parse_score response_text =
     (case parse_score_try response_text of Inl e \<Rightarrow> Inr 0 | Inr v \<Rightarrow> Inr v)"

section \<open>Judge evaluation\<close>

text \<open>
  The language model is an external collaborator: it maps a prompt to a response or
  raises, and its answer may depend on everything that happened before.
\<close>

type_synonym llm = "event list \<Rightarrow> string \<Rightarrow> pyerror + response"

definition llm_invoke :: "llm \<Rightarrow> string \<Rightarrow> response action" where
  "llm_invoke llm prompt w = (llm (events w) prompt, w\<lparr>events := events w @ [Invoke prompt]\<rparr>)"

text \<open>
  \<^verbatim>\<open>relevancy_template.format(question=question, answer=answer)\<close>
\<close>

definition relevancy_prompt :: "string \<Rightarrow> string \<Rightarrow> string" where
  "relevancy_prompt question answer =
     ''You are an impartial judge. Evaluate the following answer based on the question provided.\<newline>Question: ''
     @ question @ ''\<newline>Answer: '' @ answer @
     ''\<newline>\<newline>Rate the Relevancy of the answer to the question on a scale from 0 to 10.\<newline>0 means the answer is completely irrelevant or does not address the question at all.\<newline>10 means the answer fully and perfectly addresses all parts of the question.\<newline>\<newline>Return ONLY the number (0-10).''"

text \<open>
  \<^verbatim>\<open>faithfulness_template.format(context=context, answer=answer)\<close>
\<close>

definition faithfulness_prompt :: "string \<Rightarrow> string \<Rightarrow> string" where
  "faithfulness_prompt context answer =
     ''You are an impartial judge. Evaluate the following answer based on the context provided.\<newline>Context: ''
     @ context @ ''\<newline>Answer: '' @ answer @
     ''\<newline>\<newline>Rate the Faithfulness of the answer to the context on a scale from 0 to 10.\<newline>0 means the answer contains hallucinations or information not supported by the context.\<newline>10 means the answer is fully supported by the context.\<newline>\<newline>Return ONLY the number (0-10).''"

text \<open>
  The body of the \<^verbatim>\<open>try\<close> block. \<^verbatim>\<open>if context:\<close> is false for \<^verbatim>\<open>None\<close> and for
  the empty string.
\<close>

definition evaluate_try :: "llm \<Rightarrow> string \<Rightarrow> string \<Rightarrow> string option \<Rightarrow> (real \<times> real) action" where
  "evaluate_try llm question answer context =
     bind_s (llm_invoke llm (relevancy_prompt question answer)) (\<lambda>rel_resp.
     bind_s (lift_e (parse_score rel_resp)) (\<lambda>rel_score.
     bind_s (case context of
               None \<Rightarrow> return_s 0
             | Some c \<Rightarrow>
                 if c \<noteq> [] then
                   bind_s (llm_invoke llm (faithfulness_prompt c answer)) (\<lambda>faith_resp.
                   lift_e (parse_score faith_resp))
                 else return_s 0) (\<lambda>faith_score.
     return_s (faith_score, rel_score))))"

text \<open>
  \<^verbatim>\<open>except Exception as e\<close>: an exception of class \<^verbatim>\<open>Exception\<close> is reported and
  replaced by \<^verbatim>\<open>(0.0, 0.0)\<close>; any other exception passes through.
\<close>

definition evaluate_answer_with_llm ::
    "llm \<Rightarrow> string \<Rightarrow> string \<Rightarrow> string option \<Rightarrow> (real \<times> real) action" where
  "evaluate_answer_with_llm llm question answer context w =
     (case evaluate_try llm question answer context w of
        (Inr r, w') \<Rightarrow> (Inr r, w')
      | (Inl e, w') \<Rightarrow>
          if is_Exception (exc_of e)
          then bind_s (print_line (''Error during LLM evaluation: '' @ str_of e))
                 (\<lambda>_. return_s (0, 0)) w'
          else (Inl e, w'))"

section \<open>Answering\<close>

record document =
  page_content :: string
  metadata :: "(string \<times> string) list"

type_synonym retriever = "event list \<Rightarrow> string \<Rightarrow> pyerror + document list"

type_synonym prompt_template = "event list \<Rightarrow> string \<Rightarrow> string \<Rightarrow> pyerror + string"

definition retriever_invoke :: "retriever \<Rightarrow> string \<Rightarrow> (document list) action" where
  "retriever_invoke retriever question w =
     (retriever (events w) question, w\<lparr>events := events w @ [Retrieve question]\<rparr>)"

definition prompt_format :: "prompt_template \<Rightarrow> string \<Rightarrow> string \<Rightarrow> string action" where
  "prompt_format qa_prompt context question w =
     (qa_prompt (events w) context question,
      w\<lparr>events := events w @ [Format context question]\<rparr>)"

text \<open>
  \<^verbatim>\<open>sep.join(parts)\<close>
\<close>

fun str_join :: "string \<Rightarrow> string list \<Rightarrow> string" where
  "str_join sep [] = []"
| "str_join sep [x] = x"
| "str_join sep (x # y # ys) = x @ sep @ str_join sep (y # ys)"

text \<open>
  \<^verbatim>\<open>s[:n]\<close>: for \<open>n \<ge> 0\<close> the first \<open>n\<close> items; for \<open>n < 0\<close> all but the last \<open>-n\<close>.
\<close>

definition slice_to :: "'a list \<Rightarrow> int \<Rightarrow> 'a list" where
  "slice_to s n = (if n < 0 then take (length s - nat (- n)) s else take (nat n) s)"

definition ask_rag ::
    "retriever \<Rightarrow> string \<Rightarrow> prompt_template \<Rightarrow> llm \<Rightarrow> int \<Rightarrow> (response \<times> document list) action" where
  "ask_rag retriever question qa_prompt llm max_context_chars =
     bind_s (retriever_invoke retriever question) (\<lambda>docs.
     let context = str_join ''\<newline>\<newline>'' (map page_content docs);
         context = slice_to context max_context_chars in
     bind_s (prompt_format qa_prompt context question) (\<lambda>prompt_text.
     bind_s (llm_invoke llm prompt_text) (\<lambda>resp.
     return_s (resp, docs))))"

text \<open>
  The call without the optional argument: \<^verbatim>\<open>max_context_chars=1500\<close>.
\<close>

definition ask_rag_default ::
    "retriever \<Rightarrow> string \<Rightarrow> prompt_template \<Rightarrow> llm \<Rightarrow> (response \<times> document list) action" where
  "ask_rag_default retriever question qa_prompt llm = ask_rag retriever question qa_prompt llm 1500"

section \<open>Notions of the specification\<close>

text \<open>
  A field of a record is present and non-null.
\<close>

definition non_null :: "pydict \<Rightarrow> string \<Rightarrow> bool" where
  "non_null s k = (case s k of Some (PyNum x) \<Rightarrow> True | _ \<Rightarrow> False)"

text \<open>
  A record is fully populated: all four score fields are present and non-null.
\<close>

definition fully_populated :: "pydict \<Rightarrow> bool" where
  "fully_populated s =
     (non_null s ''vanilla_faith'' \<and> non_null s ''vanilla_relev'' \<and>
      non_null s ''rag_faith'' \<and> non_null s ''rag_relev'')"

text \<open>
  The numbers a field holds across a list of records, in order; a record that lacks the
  field or holds \<^verbatim>\<open>None\<close> there gives none.
\<close>

definition field_values :: "string \<Rightarrow> pydict list \<Rightarrow> real list" where
  "field_values k ss = concat (map (\<lambda>s. case s k of Some (PyNum x) \<Rightarrow> [x] | _ \<Rightarrow> []) ss)"


text \<open>
  The records of a score list, in list order.
\<close>

definition records_of :: "ref \<Rightarrow> world \<Rightarrow> pydict list" where
  "records_of l w = map (dicts w) (lists w l)"




text \<open>
  The prompts sent to the language model, the contexts handed to the prompt formatter and
  the lines printed, each in order of occurrence.
\<close>

fun invocations :: "event list \<Rightarrow> string list" where
  "invocations [] = []"
| "invocations (Invoke p # es) = p # invocations es"
| "invocations (e # es) = invocations es"

fun formatted_contexts :: "event list \<Rightarrow> string list" where
  "formatted_contexts [] = []"
| "formatted_contexts (Format c q # es) = c # formatted_contexts es"
| "formatted_contexts (e # es) = formatted_contexts es"


text \<open>
  The events a call added to the world.
\<close>

definition new_events :: "world \<Rightarrow> world \<Rightarrow> event list" where
  "new_events w w' = drop (length (events w)) (events w')"

text \<open>
  Texts concatenated in order with a separator between neighbours: the first text, then
  each further text preceded by the separator.
\<close>

definition separated :: "string \<Rightarrow> string list \<Rightarrow> string" where
  "separated sep xs = (case xs of [] \<Rightarrow> [] | x # ys \<Rightarrow> x @ concat (map (\<lambda>y. sep @ y) ys))"

section \<open>Example inputs\<close>

text \<open>
  A world with two score lists. The list at address 0 holds four records: two fully
  populated ones (addresses 1 and 4), one that lacks \<^verbatim>\<open>rag_relev\<close> and has a further
  field (address 2), and one that holds \<^verbatim>\<open>None\<close> (address 3). The list at address 5
  holds the two incomplete records only.
\<close>

definition example_world :: world where
  "example_world =
     \<lparr>lists = (\<lambda>r. if r = 0 then [1, 2, 3, 4] else if r = 5 then [2, 3] else []),
      dicts = (\<lambda>r.
        if r = 1 then [''vanilla_faith'' \<mapsto> PyNum 0.2, ''vanilla_relev'' \<mapsto> PyNum 0.4,
                       ''rag_faith'' \<mapsto> PyNum 0.6, ''rag_relev'' \<mapsto> PyNum 0.8]
        else if r = 2 then [''vanilla_faith'' \<mapsto> PyNum 0.9, ''vanilla_relev'' \<mapsto> PyNum 0.9,
                            ''rag_faith'' \<mapsto> PyNum 0.9, ''question_id'' \<mapsto> PyNum 7]
        else if r = 3 then [''vanilla_faith'' \<mapsto> PyNone, ''vanilla_relev'' \<mapsto> PyNum 0.7,
                            ''rag_faith'' \<mapsto> PyNum 0.7, ''rag_relev'' \<mapsto> PyNum 0.7]
        else if r = 4 then [''vanilla_faith'' \<mapsto> PyNum 0.4, ''vanilla_relev'' \<mapsto> PyNum 0.8,
                            ''rag_faith'' \<mapsto> PyNum 1, ''rag_relev'' \<mapsto> PyNum 0.2]
        else Map.empty),
      events = []\<rparr>"

text \<open>
  Language models: one that answers \<^verbatim>\<open>8\<close> to its first prompt and
  \<^verbatim>\<open>Rating: 6.5\<close> afterwards, one that always raises an \<^verbatim>\<open>Exception\<close>, one that
  raises on its second prompt, one that exits the interpreter, and one whose call is
  interrupted from the keyboard.
\<close>

definition scripted_llm :: llm where
  "scripted_llm h p = (if invocations h = [] then Inr (Text ''8'') else Inr (Text ''Rating: 6.5''))"





text \<open>
  A retriever that returns two documents, and a prompt template.
\<close>

definition example_docs :: "document list" where
  "example_docs = [\<lparr>page_content = ''abc'', metadata = [(''source'', ''a.txt'')]\<rparr>,
                   \<lparr>page_content = ''defg'', metadata = []\<rparr>]"

definition example_retriever :: retriever where
  "example_retriever h q = Inr example_docs"

definition example_prompt :: prompt_template where
  "example_prompt h c q = Inr (''Context: '' @ c @ '' Question: '' @ q)"

section \<open>Properties of metrics aggregation\<close>

lemma all_present_iff: "all_present s = fully_populated s"
  by (auto simp: all_present_def fully_populated_def non_null_def score_keys_def
      split: option.splits pyval.splits)

lemma non_nullE: "non_null s k \<Longrightarrow> \<exists>x. s k = Some (PyNum x)"
  by (auto simp: non_null_def split: option.splits pyval.splits)

lemma add_scores_full:
  assumes "fully_populated s"
  shows "add_scores s m = Inr (m\<lparr>
     vanilla_faith_avg := vanilla_faith_avg m + sum_list (field_values ''vanilla_faith'' [s]),
     vanilla_relev_avg := vanilla_relev_avg m + sum_list (field_values ''vanilla_relev'' [s]),
     rag_faith_avg := rag_faith_avg m + sum_list (field_values ''rag_faith'' [s]),
     rag_relev_avg := rag_relev_avg m + sum_list (field_values ''rag_relev'' [s])\<rparr>)"
proof -
  from assms obtain a b c d where
    "s ''vanilla_faith'' = Some (PyNum a)" "s ''vanilla_relev'' = Some (PyNum b)"
    "s ''rag_faith'' = Some (PyNum c)" "s ''rag_relev'' = Some (PyNum d)"
    unfolding fully_populated_def by (blast dest: non_nullE)
  then show ?thesis
    by (simp add: add_scores_def bind_e_def getitem_def add_float_def field_values_def)
qed

lemma sum_field_values_Cons:
  "sum_list (field_values k (s # ss)) = sum_list (field_values k [s]) + sum_list (field_values k ss)"
  by (simp add: field_values_def)

lemma accumulate_eq:
  "accumulate ds m n = Inr (m\<lparr>
     vanilla_faith_avg := vanilla_faith_avg m + sum_list (field_values ''vanilla_faith'' (filter fully_populated ds)),
     vanilla_relev_avg := vanilla_relev_avg m + sum_list (field_values ''vanilla_relev'' (filter fully_populated ds)),
     rag_faith_avg := rag_faith_avg m + sum_list (field_values ''rag_faith'' (filter fully_populated ds)),
     rag_relev_avg := rag_relev_avg m + sum_list (field_values ''rag_relev'' (filter fully_populated ds))\<rparr>,
     n + int (length (filter fully_populated ds)))"
proof (induction ds arbitrary: m n)
  case Nil
  then show ?case by (simp add: field_values_def)
next
  case (Cons s ds)
  show ?case
  proof (cases "fully_populated s")
    case True
    have "accumulate (s # ds) m n = bind_e (add_scores s m) (\<lambda>m'. accumulate ds m' (n + 1))"
      using True by (simp add: all_present_iff)
    also have "\<dots> = accumulate ds (m\<lparr>
       vanilla_faith_avg := vanilla_faith_avg m + sum_list (field_values ''vanilla_faith'' [s]),
       vanilla_relev_avg := vanilla_relev_avg m + sum_list (field_values ''vanilla_relev'' [s]),
       rag_faith_avg := rag_faith_avg m + sum_list (field_values ''rag_faith'' [s]),
       rag_relev_avg := rag_relev_avg m + sum_list (field_values ''rag_relev'' [s])\<rparr>) (n + 1)"
      by (simp only: add_scores_full [OF True] bind_e_def sum.case)
    finally show ?thesis
      using True by (simp add: Cons.IH sum_field_values_Cons [of _ s "filter fully_populated ds"] add.assoc)
  next
    case False
    then show ?thesis by (simp add: all_present_iff Cons.IH)
  qed
qed



lemma compute_metrics_eq:
  "fst (compute_metrics l w) =
     finish (metrics0\<lparr>
       vanilla_faith_avg := sum_list (field_values ''vanilla_faith'' (filter fully_populated (records_of l w))),
       vanilla_relev_avg := sum_list (field_values ''vanilla_relev'' (filter fully_populated (records_of l w))),
       rag_faith_avg := sum_list (field_values ''rag_faith'' (filter fully_populated (records_of l w))),
       rag_relev_avg := sum_list (field_values ''rag_relev'' (filter fully_populated (records_of l w)))\<rparr>)
       (int (length (filter fully_populated (records_of l w))))"
  by (simp add: compute_metrics_def accumulate_eq bind_e_def records_of_def metrics0_def)


lemma finish_zero: "finish m 0 = Inr (m\<lparr>count := 0\<rparr>)"
  by (simp add: finish_def bind_e_def)




text \<open>
  Claim C3. When no record of the score list is fully populated (the empty list
  included), metrics aggregation returns all four averages 0 and count 0; it returns a
  result, so the division was not attempted with a zero count.
\<close>

theorem compute_metrics_none_qualify:
  "\<forall>s \<in> set (records_of scores_list w). \<not> fully_populated s \<Longrightarrow>
   fst (compute_metrics scores_list w) =
     Inr \<lparr>vanilla_faith_avg = 0, vanilla_relev_avg = 0,
          rag_faith_avg = 0, rag_relev_avg = 0, count = 0\<rparr>"
proof -
  assume "\<forall>s \<in> set (records_of scores_list w). \<not> fully_populated s"
  then have "filter fully_populated (records_of scores_list w) = []"
    by (simp add: filter_empty_conv)
  then show ?thesis
    by (simp add: compute_metrics_eq finish_zero metrics0_def field_values_def)
qed

theorem compute_metrics_none_qualify_witness:
  "records_of 5 example_world = [dicts example_world 2, dicts example_world 3] \<and>
   \<not> fully_populated (dicts example_world 2) \<and>
   \<not> fully_populated (dicts example_world 3) \<and>
   fst (compute_metrics 5 example_world) =
     Inr \<lparr>vanilla_faith_avg = 0, vanilla_relev_avg = 0,
          rag_faith_avg = 0, rag_relev_avg = 0, count = 0\<rparr>"
proof -
  have recs: "records_of 5 example_world = [dicts example_world 2, dicts example_world 3]"
    by (simp add: records_of_def example_world_def)
  have n2: "\<not> fully_populated (dicts example_world 2)"
    by (simp add: example_world_def fully_populated_def non_null_def)
  have n3: "\<not> fully_populated (dicts example_world 3)"
    by (simp add: example_world_def fully_populated_def non_null_def)
  have "\<forall>s \<in> set (records_of 5 example_world). \<not> fully_populated s"
    using n2 n3 by (simp add: recs)
  from compute_metrics_none_qualify [OF this] recs n2 n3 show ?thesis by simp
qed



section \<open>Properties of the score update\<close>

lemma set_field_in_range:
  "0 \<le> idx \<Longrightarrow> idx < int (length (lists w l)) \<Longrightarrow>
   set_field l idx k v w = (Inr (), w\<lparr>dicts := (dicts w)(lists w l ! nat idx := (dicts w (lists w l ! nat idx))(k \<mapsto> v))\<rparr>)"
  by (simp add: set_field_def list_getitem_def)

lemma score_question_in_range:
  assumes "0 \<le> index - 1" "index - 1 < int (length (lists w l))"
  shows "score_question l index vf vr rf rr w =
     (Inr (), w\<lparr>dicts := (dicts w)(lists w l ! nat (index - 1) :=
        (dicts w (lists w l ! nat (index - 1)))
          (''vanilla_faith'' \<mapsto> vf, ''vanilla_relev'' \<mapsto> vr, ''rag_faith'' \<mapsto> rf, ''rag_relev'' \<mapsto> rr))\<rparr>)"
  using assms by (simp add: score_question_def bind_s_def set_field_in_range Let_def)

text \<open>
  Claim C4. For a 1-based index whose 0-based form lies in \<open>[0, length)\<close>, the score
  update returns normally and the record at \<open>index - 1\<close> holds the four given values
  in its four score fields; every other field of that record, every other record of the
  store, the list objects and the output are unchanged. Records are objects: a position
  of the list that holds the very same record shows the update too, and in a list of
  distinct records every other position is unchanged.
\<close>

theorem score_question_updates:
  assumes "0 \<le> index - 1" and "index - 1 < int (length (lists w scores_list))"
  shows "let r = lists w scores_list ! nat (index - 1);
             res = score_question scores_list index vf vr rf rr w;
             w' = snd res in
         fst res = Inr () \<and>
         dicts w' r ''vanilla_faith'' = Some vf \<and>
         dicts w' r ''vanilla_relev'' = Some vr \<and>
         dicts w' r ''rag_faith'' = Some rf \<and>
         dicts w' r ''rag_relev'' = Some rr \<and>
         (\<forall>k. k \<notin> set score_keys \<longrightarrow> dicts w' r k = dicts w r k) \<and>
         (\<forall>r'. r' \<noteq> r \<longrightarrow> dicts w' r' = dicts w r') \<and>
         (distinct (lists w scores_list) \<longrightarrow>
            (\<forall>j < length (lists w scores_list). j \<noteq> nat (index - 1) \<longrightarrow>
               dicts w' (lists w scores_list ! j) = dicts w (lists w scores_list ! j))) \<and>
         lists w' = lists w \<and> events w' = events w"
proof -
  have "nat (index - 1) < length (lists w scores_list)" using assms by linarith
  then have "j \<noteq> nat (index - 1) \<Longrightarrow> distinct (lists w scores_list) \<Longrightarrow> j < length (lists w scores_list) \<Longrightarrow>
     lists w scores_list ! j \<noteq> lists w scores_list ! nat (index - 1)" for j
    by (simp add: nth_eq_iff_index_eq)
  then show ?thesis
    by (simp add: score_question_in_range [OF assms] Let_def score_keys_def)
qed

theorem score_question_updates_witness:
  "(0::int) \<le> 2 - 1 \<and> (2::int) - 1 < int (length (lists example_world 0)) \<and>
   lists example_world 0 ! nat (2 - 1) = 2 \<and>
   distinct (lists example_world 0) \<and>
   dicts (snd (score_question 0 2 (PyNum 1) (PyNum 0.5) PyNone (PyNum 0) example_world)) 2
     ''rag_relev'' = Some (PyNum 0) \<and>
   dicts (snd (score_question 0 2 (PyNum 1) (PyNum 0.5) PyNone (PyNum 0) example_world)) 2
     ''rag_faith'' = Some PyNone \<and>
   dicts (snd (score_question 0 2 (PyNum 1) (PyNum 0.5) PyNone (PyNum 0) example_world)) 2
     ''question_id'' = Some (PyNum 7) \<and>
   dicts (snd (score_question 0 2 (PyNum 1) (PyNum 0.5) PyNone (PyNum 0) example_world)) 1
     = dicts example_world 1"
proof -
  have h1: "(0::int) \<le> 2 - 1" by simp
  have h2: "(2::int) - 1 < int (length (lists example_world 0))"
    by (simp add: example_world_def)
  have r: "lists example_world 0 ! nat (2 - 1) = 2" by (simp add: example_world_def)
  have old: "dicts example_world 2 ''question_id'' = Some (PyNum 7)"
    by (simp add: example_world_def)
  from score_question_updates [OF h1 h2, of "PyNum 1" "PyNum 0.5" PyNone "PyNum 0"]
  show ?thesis
    unfolding Let_def r using h2 r old by (simp add: score_keys_def example_world_def)
qed

text \<open>
  Claim C5. For a 1-based index whose 0-based form lies outside \<open>[0, length)\<close>, such
  as index 0 or an index greater than the length, the score update returns normally,
  leaves every list object and every record unchanged, and prints one line, the
  diagnostic that names the index.
\<close>

theorem score_question_out_of_range:
  assumes "index - 1 < 0 \<or> int (length (lists w scores_list)) \<le> index - 1"
  shows "let res = score_question scores_list index vf vr rf rr w; w' = snd res in
         fst res = Inr () \<and> lists w' = lists w \<and> dicts w' = dicts w \<and>
         events w' = events w @ [Print (''Error: Index '' @ str_int index @ '' out of range.'')]"
  using assms by (auto simp add: score_question_def print_line_def Let_def)


theorem score_question_out_of_range_witness:
  "length (lists example_world 0) = 4 \<and>
   fst (score_question 0 0 (PyNum 1) (PyNum 1) (PyNum 1) (PyNum 1) example_world) = Inr () \<and>
   dicts (snd (score_question 0 0 (PyNum 1) (PyNum 1) (PyNum 1) (PyNum 1) example_world))
     = dicts example_world \<and>
   events (snd (score_question 0 0 (PyNum 1) (PyNum 1) (PyNum 1) (PyNum 1) example_world))
     = [Print ''Error: Index 0 out of range.''] \<and>
   events (snd (score_question 0 5 (PyNum 1) (PyNum 1) (PyNum 1) (PyNum 1) example_world))
     = [Print ''Error: Index 5 out of range.'']"
proof -
  have len: "length (lists example_world 0) = 4" by (simp add: example_world_def)
  have ev: "events example_world = []" by (simp add: example_world_def)
  have s0: "str_int 0 = ''0''" by code_simp
  have s5: "str_int 5 = ''5''" by code_simp
  have h0: "(0::int) - 1 < 0 \<or> int (length (lists example_world 0)) \<le> 0 - 1" by simp
  have h5: "(5::int) - 1 < 0 \<or> int (length (lists example_world 0)) \<le> 5 - 1"
    by (simp add: len)
  from score_question_out_of_range [OF h0, of "PyNum 1" "PyNum 1" "PyNum 1" "PyNum 1"]
       score_question_out_of_range [OF h5, of "PyNum 1" "PyNum 1" "PyNum 1" "PyNum 1"]
  show ?thesis
    unfolding Let_def by (simp add: len ev s0 s5)
qed

section \<open>Properties of score parsing\<close>





















lemma parse_score_total: "\<exists>v. parse_score r = Inr v"
  by (simp add: parse_score_def split: sum.splits)




section \<open>Properties of judge evaluation\<close>

lemma evaluate_try_first_fails:
  assumes "llm (events w) (relevancy_prompt q a) = Inl e"
  shows "evaluate_try llm q a context w =
           (Inl e, w\<lparr>events := events w @ [Invoke (relevancy_prompt q a)]\<rparr>)"
  using assms by (simp add: evaluate_try_def bind_s_def llm_invoke_def)

lemma evaluate_try_no_context:
  assumes "llm (events w) (relevancy_prompt q a) = Inr resp" and "parse_score resp = Inr v"
    and "context = None \<or> context = Some []"
  shows "evaluate_try llm q a context w =
           (Inr (0, v), w\<lparr>events := events w @ [Invoke (relevancy_prompt q a)]\<rparr>)"
  using assms by (auto simp add: evaluate_try_def bind_s_def llm_invoke_def lift_e_def return_s_def)


lemma evaluate_try_both:
  assumes "llm (events w) (relevancy_prompt q a) = Inr resp1" and "c \<noteq> []"
    and "llm (events w @ [Invoke (relevancy_prompt q a)]) (faithfulness_prompt c a) = Inr resp2"
    and "parse_score resp1 = Inr vr" and "parse_score resp2 = Inr vf"
  shows "evaluate_try llm q a (Some c) w =
           (Inr (vf, vr), w\<lparr>events := events w @ [Invoke (relevancy_prompt q a),
                                            Invoke (faithfulness_prompt c a)]\<rparr>)"
  using assms
  by (simp add: evaluate_try_def bind_s_def llm_invoke_def lift_e_def return_s_def)

lemma evaluate_try_no_context_cases:
  assumes "context = None \<or> context = Some []"
  shows "(\<exists>e. evaluate_try llm q a context w =
            (Inl e, w\<lparr>events := events w @ [Invoke (relevancy_prompt q a)]\<rparr>)) \<or>
         (\<exists>v. evaluate_try llm q a context w =
            (Inr (0, v), w\<lparr>events := events w @ [Invoke (relevancy_prompt q a)]\<rparr>))"
proof (cases "llm (events w) (relevancy_prompt q a)")
  case (Inl e)
  from evaluate_try_first_fails [of llm w q a e "context", OF this] show ?thesis by blast
next
  case (Inr resp)
  obtain v where "parse_score resp = Inr v" using parse_score_total by blast
  from evaluate_try_no_context [of llm w q a resp v "context", OF Inr this assms]
  show ?thesis by blast
qed

lemma evaluate_caught:
  assumes "evaluate_try llm q a context w = (Inl e, w')" and "is_Exception (exc_of e)"
  shows "evaluate_answer_with_llm llm q a context w =
           (Inr (0, 0), w'\<lparr>events := events w' @ [Print (''Error during LLM evaluation: '' @ str_of e)]\<rparr>)"
  using assms
  by (simp add: evaluate_answer_with_llm_def bind_s_def print_line_def return_s_def)

lemma evaluate_passed:
  assumes "evaluate_try llm q a context w = (Inl e, w')" and "\<not> is_Exception (exc_of e)"
  shows "evaluate_answer_with_llm llm q a context w = (Inl e, w')"
  using assms by (simp add: evaluate_answer_with_llm_def)

lemma evaluate_returned:
  assumes "evaluate_try llm q a context w = (Inr r, w')"
  shows "evaluate_answer_with_llm llm q a context w = (Inr r, w')"
  using assms by (simp add: evaluate_answer_with_llm_def)

text \<open>
  Claim C6. With no context, or with an empty one, judge evaluation never returns a
  faithfulness other than 0, it invokes the model exactly once, with the relevancy
  prompt, and when the model answers, the relevancy is the parsed answer. With a
  non-empty context, when the model answers both prompts, relevancy and faithfulness are
  each the parsed answer of an invocation of their own (the relevancy prompt first, the
  faithfulness prompt second), and the result is the pair (faithfulness, relevancy).
\<close>

theorem evaluate_answer_scores:
  "(context = None \<or> context = Some [] \<longrightarrow>
      (\<forall>f r w'. evaluate_answer_with_llm llm q a context w = (Inr (f, r), w') \<longrightarrow> f = 0) \<and>
      invocations (new_events w (snd (evaluate_answer_with_llm llm q a context w)))
        = [relevancy_prompt q a] \<and>
      (\<forall>resp. llm (events w) (relevancy_prompt q a) = Inr resp \<longrightarrow>
         (\<exists>v. parse_score resp = Inr v \<and>
              evaluate_answer_with_llm llm q a context w =
                (Inr (0, v), w\<lparr>events := events w @ [Invoke (relevancy_prompt q a)]\<rparr>)))) \<and>
   (\<forall>c resp1 resp2.
      context = Some c \<and> c \<noteq> [] \<and>
      llm (events w) (relevancy_prompt q a) = Inr resp1 \<and>
      llm (events w @ [Invoke (relevancy_prompt q a)]) (faithfulness_prompt c a) = Inr resp2 \<longrightarrow>
      (\<exists>vf vr. parse_score resp2 = Inr vf \<and> parse_score resp1 = Inr vr \<and>
         evaluate_answer_with_llm llm q a context w =
           (Inr (vf, vr), w\<lparr>events := events w @ [Invoke (relevancy_prompt q a),
                                                   Invoke (faithfulness_prompt c a)]\<rparr>)))"
proof (intro conjI impI allI)
  fix f r w'
  assume nc: "context = None \<or> context = Some []"
    and ret: "evaluate_answer_with_llm llm q a context w = (Inr (f, r), w')"
  from evaluate_try_no_context_cases [OF nc, of llm q a w] show "f = 0"
  proof (elim disjE exE)
    fix e
    assume t: "evaluate_try llm q a context w =
      (Inl e, w\<lparr>events := events w @ [Invoke (relevancy_prompt q a)]\<rparr>)"
    show "f = 0"
    proof (cases "is_Exception (exc_of e)")
      case True
      from evaluate_caught [OF t True] ret show ?thesis by simp
    next
      case False
      from evaluate_passed [OF t False] ret show ?thesis by simp
    qed
  next
    fix v
    assume t: "evaluate_try llm q a context w =
      (Inr (0, v), w\<lparr>events := events w @ [Invoke (relevancy_prompt q a)]\<rparr>)"
    from evaluate_returned [OF t] ret show "f = 0" by simp
  qed
next
  assume nc: "context = None \<or> context = Some []"
  from evaluate_try_no_context_cases [OF nc, of llm q a w]
  show "invocations (new_events w (snd (evaluate_answer_with_llm llm q a context w)))
        = [relevancy_prompt q a]"
  proof (elim disjE exE)
    fix e
    assume t: "evaluate_try llm q a context w =
      (Inl e, w\<lparr>events := events w @ [Invoke (relevancy_prompt q a)]\<rparr>)"
    show ?thesis
    proof (cases "is_Exception (exc_of e)")
      case True
      from evaluate_caught [OF t True] show ?thesis by (simp add: new_events_def)
    next
      case False
      from evaluate_passed [OF t False] show ?thesis by (simp add: new_events_def)
    qed
  next
    fix v
    assume t: "evaluate_try llm q a context w =
      (Inr (0, v), w\<lparr>events := events w @ [Invoke (relevancy_prompt q a)]\<rparr>)"
    from evaluate_returned [OF t] show ?thesis by (simp add: new_events_def)
  qed
next
  fix resp
  assume nc: "context = None \<or> context = Some []"
    and ok: "llm (events w) (relevancy_prompt q a) = Inr resp"
  obtain v where v: "parse_score resp = Inr v" using parse_score_total by blast
  from evaluate_returned [OF evaluate_try_no_context [of llm w q a resp v "context", OF ok v nc]] v
  show "\<exists>v. parse_score resp = Inr v \<and>
              evaluate_answer_with_llm llm q a context w =
                (Inr (0, v), w\<lparr>events := events w @ [Invoke (relevancy_prompt q a)]\<rparr>)"
    by blast
next
  fix c resp1 resp2
  assume h: "context = Some c \<and> c \<noteq> [] \<and>
      llm (events w) (relevancy_prompt q a) = Inr resp1 \<and>
      llm (events w @ [Invoke (relevancy_prompt q a)]) (faithfulness_prompt c a) = Inr resp2"
  obtain vr where vr: "parse_score resp1 = Inr vr" using parse_score_total by blast
  obtain vf where vf: "parse_score resp2 = Inr vf" using parse_score_total by blast
  from h have "evaluate_try llm q a context w =
           (Inr (vf, vr), w\<lparr>events := events w @ [Invoke (relevancy_prompt q a),
                                            Invoke (faithfulness_prompt c a)]\<rparr>)"
    using evaluate_try_both [of llm w q a resp1 c resp2 vr vf] vr vf by simp
  from evaluate_returned [OF this] vr vf
  show "\<exists>vf vr. parse_score resp2 = Inr vf \<and> parse_score resp1 = Inr vr \<and>
         evaluate_answer_with_llm llm q a context w =
           (Inr (vf, vr), w\<lparr>events := events w @ [Invoke (relevancy_prompt q a),
                                                   Invoke (faithfulness_prompt c a)]\<rparr>)"
    by blast
qed


lemma scripted_first:
  "scripted_llm (events example_world) p = Inr (Text ''8'')"
  by (simp add: scripted_llm_def example_world_def)

lemma scripted_second:
  "scripted_llm (events example_world @ [Invoke p]) p' = Inr (Text ''Rating: 6.5'')"
  by (simp add: scripted_llm_def example_world_def)

lemmas parse_score_eval = parse_score_def parse_score_try_def match_number_def is_digit_def
  py_float_def decimal_def digit_value_def bind_e_def

lemma parse_8: "parse_score (Text ''8'') = Inr (4 / 5)"
  by (simp add: parse_score_eval)

lemma parse_6_5: "parse_score (Text ''Rating: 6.5'') = Inr (13 / 20)"
  by (simp add: parse_score_eval)

theorem evaluate_answer_scores_witness:
  "scripted_llm (events example_world) (relevancy_prompt ''q'' ''a'') = Inr (Text ''8'') \<and>
   scripted_llm (events example_world @ [Invoke (relevancy_prompt ''q'' ''a'')])
     (faithfulness_prompt ''ctx'' ''a'') = Inr (Text ''Rating: 6.5'') \<and>
   fst (evaluate_answer_with_llm scripted_llm ''q'' ''a'' None example_world) = Inr (0, 4 / 5) \<and>
   fst (evaluate_answer_with_llm scripted_llm ''q'' ''a'' (Some []) example_world) = Inr (0, 4 / 5) \<and>
   fst (evaluate_answer_with_llm scripted_llm ''q'' ''a'' (Some ''ctx'') example_world)
     = Inr (13 / 20, 4 / 5)"
proof -
  let ?relp = "relevancy_prompt ''q'' ''a''"
  have l1: "scripted_llm (events example_world) ?relp = Inr (Text ''8'')"
    by (rule scripted_first)
  have l2: "scripted_llm (events example_world @ [Invoke ?relp])
     (faithfulness_prompt ''ctx'' ''a'') = Inr (Text ''Rating: 6.5'')"
    by (rule scripted_second)
  have none: "fst (evaluate_answer_with_llm scripted_llm ''q'' ''a'' None example_world)
     = Inr (0, 4 / 5)"
  proof -
    from evaluate_answer_scores [of None scripted_llm "''q''" "''a''" example_world] l1
    obtain v where "parse_score (Text ''8'') = Inr v"
      and "evaluate_answer_with_llm scripted_llm ''q'' ''a'' None example_world =
        (Inr (0, v), example_world\<lparr>events := events example_world @ [Invoke ?relp]\<rparr>)"
      by blast
    with parse_8 show ?thesis by simp
  qed
  have empty: "fst (evaluate_answer_with_llm scripted_llm ''q'' ''a'' (Some []) example_world)
     = Inr (0, 4 / 5)"
  proof -
    from evaluate_answer_scores [of "Some []" scripted_llm "''q''" "''a''" example_world] l1
    obtain v where "parse_score (Text ''8'') = Inr v"
      and "evaluate_answer_with_llm scripted_llm ''q'' ''a'' (Some []) example_world =
        (Inr (0, v), example_world\<lparr>events := events example_world @ [Invoke ?relp]\<rparr>)"
      by blast
    with parse_8 show ?thesis by simp
  qed
  have some: "fst (evaluate_answer_with_llm scripted_llm ''q'' ''a'' (Some ''ctx'') example_world)
     = Inr (13 / 20, 4 / 5)"
  proof -
    have "''ctx'' \<noteq> []" by simp
    with evaluate_answer_scores [of "Some ''ctx''" scripted_llm "''q''" "''a''" example_world]
      l1 l2
    obtain vf vr where "parse_score (Text ''Rating: 6.5'') = Inr vf"
      and "parse_score (Text ''8'') = Inr vr"
      and "evaluate_answer_with_llm scripted_llm ''q'' ''a'' (Some ''ctx'') example_world =
        (Inr (vf, vr), example_world\<lparr>events := events example_world @
           [Invoke ?relp, Invoke (faithfulness_prompt ''ctx'' ''a'')]\<rparr>)"
      by blast
    with parse_8 parse_6_5 show ?thesis by simp
  qed
  from l1 l2 none empty some show ?thesis by simp
qed







section \<open>Properties of the answering function\<close>

lemma str_join_separated: "str_join sep xs = separated sep xs"
  by (induction sep xs rule: str_join.induct) (simp_all add: separated_def)

lemma slice_to_prefix: "\<exists>rest. s = slice_to s n @ rest"
  by (metis append_take_drop_id slice_to_def)

lemma slice_to_nonneg: "0 \<le> n \<Longrightarrow> slice_to s n = take (nat n) s"
  by (simp add: slice_to_def)

lemma ask_rag_retriever_fails:
  assumes "retriever (events w) question = Inl e"
  shows "ask_rag retriever question qa_prompt llm n w =
           (Inl e, w\<lparr>events := events w @ [Retrieve question]\<rparr>)"
  using assms by (simp add: ask_rag_def bind_s_def retriever_invoke_def)

lemma ask_rag_run:
  assumes "retriever (events w) question = Inr docs"
  shows "ask_rag retriever question qa_prompt llm n w =
     (let ctx = slice_to (str_join ''\<newline>\<newline>'' (map page_content docs)) n;
          w1 = w\<lparr>events := events w @ [Retrieve question, Format ctx question]\<rparr> in
      case qa_prompt (events w @ [Retrieve question]) ctx question of
        Inl e \<Rightarrow> (Inl e, w1)
      | Inr prompt_text \<Rightarrow>
          (case llm (events w1) prompt_text of
             Inl e \<Rightarrow> (Inl e, w1\<lparr>events := events w1 @ [Invoke prompt_text]\<rparr>)
           | Inr resp \<Rightarrow> (Inr (resp, docs), w1\<lparr>events := events w1 @ [Invoke prompt_text]\<rparr>)))"
  using assms
  by (simp add: ask_rag_def bind_s_def retriever_invoke_def prompt_format_def llm_invoke_def
      return_s_def Let_def split: sum.splits)

lemma ask_rag_formatted:
  assumes "retriever (events w) question = Inr docs"
  shows "formatted_contexts (new_events w (snd (ask_rag retriever question qa_prompt llm n w)))
           = [slice_to (str_join ''\<newline>\<newline>'' (map page_content docs)) n]"
  using assms by (simp add: ask_rag_run Let_def new_events_def split: sum.splits)

lemma ask_rag_no_format:
  assumes "retriever (events w) question = Inl e"
  shows "formatted_contexts (new_events w (snd (ask_rag retriever question qa_prompt llm n w))) = []"
  using assms by (simp add: ask_rag_retriever_fails new_events_def)

text \<open>
  Claim C8, as amended. When the retriever raises, the prompt formatter is not called.
  Otherwise it is called once, and the context it receives is a prefix of the
  concatenated document text; for every non-negative \<^verbatim>\<open>max_context_chars\<close> that
  context is the first \<^verbatim>\<open>max_context_chars\<close> characters of the concatenated text (all
  of it when it is shorter), so its length is at most \<^verbatim>\<open>max_context_chars\<close>. With the
  default the bound is 1500.
\<close>

theorem ask_rag_context_bound:
  "(case retriever (events w) question of
      Inl e \<Rightarrow>
        formatted_contexts
          (new_events w (snd (ask_rag retriever question qa_prompt llm max_context_chars w))) = []
    | Inr docs \<Rightarrow>
        (\<exists>ctx rest.
           formatted_contexts
             (new_events w (snd (ask_rag retriever question qa_prompt llm max_context_chars w)))
             = [ctx] \<and>
           str_join ''\<newline>\<newline>'' (map page_content docs) = ctx @ rest \<and>
           (0 \<le> max_context_chars \<longrightarrow>
              ctx = take (nat max_context_chars) (str_join ''\<newline>\<newline>'' (map page_content docs)) \<and>
              int (length ctx) \<le> max_context_chars))) \<and>
   (\<forall>c \<in> set (formatted_contexts
                 (new_events w (snd (ask_rag_default retriever question qa_prompt llm w)))).
      length c \<le> 1500)"
proof
  show "case retriever (events w) question of
      Inl e \<Rightarrow>
        formatted_contexts
          (new_events w (snd (ask_rag retriever question qa_prompt llm max_context_chars w))) = []
    | Inr docs \<Rightarrow>
        (\<exists>ctx rest.
           formatted_contexts
             (new_events w (snd (ask_rag retriever question qa_prompt llm max_context_chars w)))
             = [ctx] \<and>
           str_join ''\<newline>\<newline>'' (map page_content docs) = ctx @ rest \<and>
           (0 \<le> max_context_chars \<longrightarrow>
              ctx = take (nat max_context_chars) (str_join ''\<newline>\<newline>'' (map page_content docs)) \<and>
              int (length ctx) \<le> max_context_chars))"
  proof (cases "retriever (events w) question")
    case (Inl e)
    then show ?thesis by (simp add: ask_rag_no_format)
  next
    case (Inr docs)
    let ?j = "str_join ''\<newline>\<newline>'' (map page_content docs)"
    obtain rest where "?j = slice_to ?j max_context_chars @ rest"
      using slice_to_prefix by blast
    moreover have "0 \<le> max_context_chars \<longrightarrow>
        slice_to ?j max_context_chars = take (nat max_context_chars) ?j \<and>
        int (length (slice_to ?j max_context_chars)) \<le> max_context_chars"
      by (auto simp add: slice_to_nonneg)
    ultimately show ?thesis
      using Inr ask_rag_formatted [of retriever w question docs qa_prompt llm max_context_chars]
      by (simp only: sum.case) blast
  qed
next
  show "\<forall>c \<in> set (formatted_contexts
                 (new_events w (snd (ask_rag_default retriever question qa_prompt llm w)))).
      length c \<le> 1500"
  proof (cases "retriever (events w) question")
    case (Inl e)
    then show ?thesis by (simp add: ask_rag_default_def ask_rag_no_format)
  next
    case (Inr docs)
    then show ?thesis
      by (simp add: ask_rag_default_def ask_rag_formatted slice_to_nonneg)
  qed
qed

lemma example_joined:
  "str_join ''\<newline>\<newline>'' (map page_content example_docs) = ''abc\<newline>\<newline>defg''"
  by (simp add: example_docs_def)

lemma example_retrieved:
  "example_retriever (events example_world) ''q'' = Inr example_docs"
  by (simp add: example_retriever_def)

theorem ask_rag_context_bound_witness:
  "(0::int) \<le> 4 \<and>
   formatted_contexts
     (new_events example_world
        (snd (ask_rag example_retriever ''q'' example_prompt scripted_llm 4 example_world)))
     = [''abc\<newline>''] \<and>
   int (length ''abc\<newline>'') \<le> 4 \<and>
   formatted_contexts
     (new_events example_world
        (snd (ask_rag_default example_retriever ''q'' example_prompt scripted_llm example_world)))
     = [''abc\<newline>\<newline>defg''] \<and>
   length ''abc\<newline>\<newline>defg'' \<le> 1500"
  using ask_rag_context_bound [where retriever = example_retriever and w = example_world
      and question = "''q''" and qa_prompt = example_prompt and llm = scripted_llm
      and max_context_chars = 4] example_retrieved
  by (simp add: example_joined ask_rag_default_def ask_rag_formatted slice_to_def)

text \<open>
  The claim as stated fails for a negative \<^verbatim>\<open>max_context_chars\<close>: the slice then
  drops characters from the end, and no string is as short as a negative bound asks.
\<close>

theorem ask_rag_negative_counterexample:
  "formatted_contexts
     (events (snd (ask_rag example_retriever ''q'' example_prompt scripted_llm (- 1) example_world)))
     = [''abc\<newline>\<newline>def''] \<and>
   \<not> int (length ''abc\<newline>\<newline>def'') \<le> - 1"
  using example_retrieved
  by (simp add: ask_rag_run example_joined slice_to_def Let_def
      example_prompt_def scripted_llm_def example_world_def)

text \<open>
  Claim C9. When the retriever returns documents, the text the answering function cuts
  its context from is the documents' texts in retrieval order with a double newline
  between neighbours; when the prompt formatter and the model return as well, the result
  is the pair of the model's response and the retriever's document list; and whenever a
  pair is returned its document list is the retriever's, whole, whatever
  \<^verbatim>\<open>max_context_chars\<close> is.
\<close>

theorem ask_rag_returns_documents:
  assumes "retriever (events w) question = Inr docs"
  shows "let joined = str_join ''\<newline>\<newline>'' (map page_content docs);
             ctx = slice_to joined max_context_chars in
         joined = separated ''\<newline>\<newline>'' (map page_content docs) \<and>
         formatted_contexts
           (new_events w (snd (ask_rag retriever question qa_prompt llm max_context_chars w)))
           = [ctx] \<and>
         (\<forall>prompt_text resp.
            qa_prompt (events w @ [Retrieve question]) ctx question = Inr prompt_text \<and>
            llm (events w @ [Retrieve question, Format ctx question]) prompt_text = Inr resp \<longrightarrow>
            ask_rag retriever question qa_prompt llm max_context_chars w =
              (Inr (resp, docs),
               w\<lparr>events := events w @ [Retrieve question, Format ctx question,
                                        Invoke prompt_text]\<rparr>)) \<and>
         (\<forall>resp ds w'.
            ask_rag retriever question qa_prompt llm max_context_chars w = (Inr (resp, ds), w') \<longrightarrow>
            ds = docs)"
proof -
  let ?j = "str_join ''\<newline>\<newline>'' (map page_content docs)"
  let ?ctx = "slice_to ?j max_context_chars"
  have a: "?j = separated ''\<newline>\<newline>'' (map page_content docs)"
    by (rule str_join_separated)
  have b: "formatted_contexts
           (new_events w (snd (ask_rag retriever question qa_prompt llm max_context_chars w)))
           = [?ctx]"
    using assms by (rule ask_rag_formatted)
  have c: "ask_rag retriever question qa_prompt llm max_context_chars w =
              (Inr (resp, docs),
               w\<lparr>events := events w @ [Retrieve question, Format ?ctx question,
                                        Invoke prompt_text]\<rparr>)"
    if "qa_prompt (events w @ [Retrieve question]) ?ctx question = Inr prompt_text"
      and "llm (events w @ [Retrieve question, Format ?ctx question]) prompt_text = Inr resp"
    for prompt_text resp
    using that assms by (simp add: ask_rag_run Let_def)
  have d: "ds = docs"
    if "ask_rag retriever question qa_prompt llm max_context_chars w = (Inr (resp, ds), w')"
    for resp ds w'
    using that assms by (simp add: ask_rag_run Let_def split: sum.splits)
  from a b c d show ?thesis unfolding Let_def by blast
qed

theorem ask_rag_returns_documents_witness:
  "example_retriever (events example_world) ''q'' = Inr example_docs \<and>
   length example_docs = 2 \<and>
   str_join ''\<newline>\<newline>'' (map page_content example_docs) = ''abc\<newline>\<newline>defg'' \<and>
   fst (ask_rag example_retriever ''q'' example_prompt scripted_llm 4 example_world)
     = Inr (Text ''8'', example_docs) \<and>
   events (snd (ask_rag example_retriever ''q'' example_prompt scripted_llm 4 example_world))
     = [Retrieve ''q'', Format ''abc\<newline>'' ''q'', Invoke ''Context: abc\<newline> Question: q'']"
proof -
  have ev: "events example_world = []" by (simp add: example_world_def)
  have sl: "slice_to ''abc\<newline>\<newline>defg'' 4 = ''abc\<newline>''" by (simp add: slice_to_def)
  have p: "example_prompt (events example_world @ [Retrieve ''q'']) ''abc\<newline>'' ''q''
      = Inr ''Context: abc\<newline> Question: q''"
    by (simp add: example_prompt_def)
  have l: "scripted_llm (events example_world @ [Retrieve ''q'', Format ''abc\<newline>'' ''q''])
      ''Context: abc\<newline> Question: q'' = Inr (Text ''8'')"
    by (simp add: scripted_llm_def ev)
  from ask_rag_returns_documents [where retriever = example_retriever and w = example_world
      and question = "''q''" and docs = example_docs and qa_prompt = example_prompt
      and llm = scripted_llm and max_context_chars = 4, OF example_retrieved]
  have "ask_rag example_retriever ''q'' example_prompt scripted_llm 4 example_world =
      (Inr (Text ''8'', example_docs),
       example_world\<lparr>events := events example_world @
         [Retrieve ''q'', Format ''abc\<newline>'' ''q'', Invoke ''Context: abc\<newline> Question: q'']\<rparr>)"
    unfolding Let_def example_joined sl using p l by blast
  then show ?thesis
    using example_retrieved example_joined by (simp add: ev example_docs_def)
qed


end
